theory Spec2Isabelle
  imports Complex_Main "HOL-Library.Word" "HOL-Library.AList" "HOL-Library.Signed_Division"
    "HOL-Library.Log_Nat"
begin

section \<open>Shared helpers\<close>

text \<open>
  Go errors. \<open>Errorf\<close> is a \<^verbatim>\<open>fmt.Errorf\<close> without a wrapped cause, \<open>Wrapf p e\<close> is
  \<^verbatim>\<open>fmt.Errorf("p: %w", e)\<close>, \<open>External\<close> is an error handed back by the operating system
  or by the Firecracker SDK, \<open>CtxErr\<close> is \<^verbatim>\<open>ctx.Err()\<close> of a finished context, and
  \<open>GRPC k msg\<close> is a containerd \<^verbatim>\<open>errdefs\<close> error of kind \<open>k\<close>. \<open>Panic\<close> stands for a
  run-time panic (a nil dereference), which ends the call without a result.
\<close>

datatype errkind = ErrNotFound | ErrAlreadyExists | ErrInvalidArgument | ErrUnavailable
  | ErrFailedPrecondition | ErrInternal | ErrNotImplemented

datatype error = Errorf string | Wrapf string error | External string | CtxErr string
  | GRPC errkind string | Panic string

text \<open>\<^verbatim>\<open>errors.Is(err, errdefs.Err<kind>)\<close>: walks the chain of wrapped causes.\<close>

fun IsKind :: "errkind \<Rightarrow> error \<Rightarrow> bool" where
  "IsKind k (GRPC k' msg) = (k = k')"
| "IsKind k (Wrapf p e) = IsKind k e"
| "IsKind k (Errorf msg) = False"
| "IsKind k (External msg) = False"
| "IsKind k (CtxErr msg) = False"
| "IsKind k (Panic msg) = False"

text \<open>Instants (\<^verbatim>\<open>time.Time\<close>) and durations (\<^verbatim>\<open>time.Duration\<close>, int64 nanoseconds).\<close>

type_synonym time = int
type_synonym Duration = int

definition Millisecond :: Duration where "Millisecond = 1000000"
definition Second :: Duration where "Second = 1000000000"

text \<open>The \<^verbatim>\<open>%d\<close> verb of \<^verbatim>\<open>fmt\<close>.\<close>

fun string_of_nat :: "nat \<Rightarrow> string" where
  "string_of_nat n =
     (if n < 10 then [char_of (48 + n)]
      else string_of_nat (n div 10) @ [char_of (48 + n mod 10)])"

declare string_of_nat.simps [simp del]

definition string_of_int :: "int \<Rightarrow> string" where
  "string_of_int i = (if i < 0 then CHR ''-'' # string_of_nat (nat (- i)) else string_of_nat (nat i))"

text \<open>\<^verbatim>\<open>filepath.Join\<close> on two clean, non-empty elements.\<close>

definition path_join :: "string \<Rightarrow> string \<Rightarrow> string" where
  "path_join a b = a @ ''/'' @ b"

section \<open>Domain model (pkg/domain/types.go)\<close>

datatype SandboxState = SandboxUnknown | SandboxPending | SandboxReady | SandboxStopped

record DriveConfig =
  DriveID :: string
  PathOnHost :: string
  IsReadOnly :: bool
  IsRoot :: bool
  CacheType :: string

record VMConfig =
  VcpuCount :: "64 word"
  MemoryMB :: "64 word"
  SMTEnabled :: bool
  KernelPath :: string
  KernelArgs :: string
  InitrdPath :: string
  RootDrive :: DriveConfig
  NetworkMode :: string
  VsockEnabled :: bool
  cfg_VsockCID :: "32 word"
  JailerEnabled :: bool

definition emptyDrive :: DriveConfig where
  "emptyDrive = \<lparr>DriveID = [], PathOnHost = [], IsReadOnly = False, IsRoot = False,
     CacheType = []\<rparr>"

definition DefaultVMConfig :: VMConfig where
  "DefaultVMConfig = \<lparr>VcpuCount = 1, MemoryMB = 128, SMTEnabled = False, KernelPath = [],
     KernelArgs = ''console=ttyS0 reboot=k panic=1 pci=off quiet'', InitrdPath = [],
     RootDrive = emptyDrive, NetworkMode = ''cni'', VsockEnabled = True, cfg_VsockCID = 0,
     JailerEnabled = False\<rparr>"

text \<open>
  The handle \<^verbatim>\<open>*firecracker.Machine\<close> of the SDK: what the manager passed to
  \<^verbatim>\<open>NewMachine\<close> that this development reads back.
\<close>

record Machine =
  SocketPath :: string
  mc_VsockPath :: string
  mc_CID :: "32 word"

text \<open>
  A sandbox. \<open>VM = None\<close> is the nil machine pointer, \<open>AgentConn = None\<close> the nil
  connection; \<open>Containers\<close> lists the keys of the container map.
\<close>

record Sandbox =
  ID :: string
  State :: SandboxState
  VM :: "Machine option"
  sb_VMConfig :: VMConfig
  PID :: int
  VsockPath :: string
  VsockCID :: "32 word"
  AgentConn :: "nat option"
  Containers :: "string list"
  CreatedAt :: time
  StartedAt :: time
  FinishedAt :: time
  PooledAt :: time
  FromPool :: bool

definition NewSandbox :: "string \<Rightarrow> time \<Rightarrow> Sandbox" where
  "NewSandbox sid now = \<lparr>ID = sid, State = SandboxPending, VM = None,
     sb_VMConfig = \<lparr>VcpuCount = 0, MemoryMB = 0, SMTEnabled = False, KernelPath = [],
       KernelArgs = [], InitrdPath = [], RootDrive = emptyDrive, NetworkMode = [],
       VsockEnabled = False, cfg_VsockCID = 0, JailerEnabled = False\<rparr>,
     PID = 0, VsockPath = [], VsockCID = 0, AgentConn = None, Containers = [],
     CreatedAt = now, StartedAt = 0, FinishedAt = 0, PooledAt = 0, FromPool = False\<rparr>"

section \<open>VM lifecycle manager\<close>

text \<open>
  Sandboxes are shared by pointer between the manager's index, the pool's queue and the
  pool's in-use map, so they live in a store: a reference is an address, \<open>heap\<close> gives the
  sandbox stored there, \<open>next_ref\<close> is the next unused address. Go maps are association
  lists with distinct keys.
\<close>

type_synonym ref = nat

record ManagerConfig =
  FirecrackerBinary :: string
  RuntimeDir :: string
  DefaultKernelPath :: string
  DefaultKernelArgs :: string
  JailerBinary :: string
  EnableJailer :: bool

definition DefaultManagerConfig :: ManagerConfig where
  "DefaultManagerConfig = \<lparr>FirecrackerBinary = ''/usr/bin/firecracker'',
     RuntimeDir = ''/run/fc-cri'', DefaultKernelPath = ''/var/lib/fc-cri/vmlinux'',
     DefaultKernelArgs = ''console=ttyS0 reboot=k panic=1 pci=off quiet'',
     JailerBinary = ''/usr/bin/jailer'', EnableJailer = False\<rparr>"

text \<open>
  The manager. \<open>m_warnings\<close> stands for its logger: the messages it has written at
  level Warn, oldest first.
\<close>

record Manager =
  m_config :: ManagerConfig
  sandboxes :: "(string \<times> ref) list"
  cidCounter :: "32 word"
  m_warnings :: "string list"

definition NewManager :: "ManagerConfig \<Rightarrow> Manager" where
  "NewManager config = \<lparr>m_config = config, sandboxes = [], cidCounter = 3, m_warnings = []\<rparr>"

text \<open>\<^verbatim>\<open>m.log.WithError(err).Warn(msg)\<close>, written only when the error is not nil.\<close>

definition warn_if :: "error option \<Rightarrow> string \<Rightarrow> Manager \<Rightarrow> Manager" where
  "warn_if err msg m =
    (case err of None \<Rightarrow> m | Some e \<Rightarrow> m\<lparr>m_warnings := m_warnings m @ [msg]\<rparr>)"

text \<open>The pool (pkg/vm/pool.go). The counters are int64 and wrap.\<close>

record poolStats =
  totalServed :: "64 word"
  poolHits :: "64 word"
  poolMisses :: "64 word"

record PoolConfig =
  MaxSize :: int
  MinSize :: int
  MaxIdleTime :: Duration
  WarmConcurrency :: int
  p_DefaultVMConfig :: VMConfig
  ReplenishInterval :: Duration

definition DefaultPoolConfig :: PoolConfig where
  "DefaultPoolConfig = \<lparr>MaxSize = 10, MinSize = 3, MaxIdleTime = 5 * 60 * Second,
     WarmConcurrency = 2, p_DefaultVMConfig = DefaultVMConfig,
     ReplenishInterval = 10 * Second\<rparr>"

text \<open>
  \<open>available\<close> is the buffered channel of ready sandboxes, oldest first; its capacity is
  \<open>MaxSize\<close> of the configuration, fixed by \<^verbatim>\<open>NewPool\<close>.
\<close>

record Pool =
  p_config :: PoolConfig
  available :: "ref list"
  inUse :: "(string \<times> ref) list"
  stats :: poolStats
  closed :: bool

definition NewPool :: "PoolConfig \<Rightarrow> Pool" where
  "NewPool config = \<lparr>p_config = config, available = [], inUse = [],
     stats = \<lparr>totalServed = 0, poolHits = 0, poolMisses = 0\<rparr>, closed = False\<rparr>"

record PoolStats =
  Available :: int
  InUse :: int
  ps_MaxSize :: int
  TotalServed :: "64 word"
  PoolHits :: "64 word"
  PoolMisses :: "64 word"

text \<open>The snapshot manager (pkg/vm/snapshot.go).\<close>

record Snapshot =
  Name :: string
  MemoryPath :: string
  StatePath :: string
  snap_VMConfig :: VMConfig
  Version :: string
  snap_CreatedAt :: time
  SizeBytes :: int
  Metadata :: "(string \<times> string) list"
  IsGolden :: bool

record SnapshotConfig =
  Enabled :: bool
  CacheDir :: string
  MaxCached :: int
  GoldenSnapshotName :: string
  GoldenVMConfig :: VMConfig
  SnapshotType :: string
  MemoryBackend :: string
  CompressMemory :: bool

definition DefaultSnapshotConfig :: SnapshotConfig where
  "DefaultSnapshotConfig = \<lparr>Enabled = False, CacheDir = ''/var/lib/fc-cri/snapshots'',
     MaxCached = 10, GoldenSnapshotName = ''golden-base'', GoldenVMConfig = DefaultVMConfig,
     SnapshotType = ''Full'', MemoryBackend = ''File'', CompressMemory = False\<rparr>"

text \<open>
  \<open>snapshots\<close> is the Go map in the order one \<^verbatim>\<open>range\<close> over it visits the entries
  (Go leaves that order open, so every order is a possible one).
\<close>

record SnapshotManager =
  sm_config :: SnapshotConfig
  snapshots :: "(string \<times> Snapshot) list"
  goldenSnapshot :: "Snapshot option"

text \<open>
  The state the operations share: the store of sandboxes, the manager, the pool, and the
  snapshot manager a \<^verbatim>\<open>SnapshotPool\<close> points to (\<open>None\<close> is the nil pointer).
\<close>

record World =
  heap :: "ref \<Rightarrow> Sandbox"
  next_ref :: ref
  manager :: Manager
  pool :: Pool
  snapshotMgr :: "SnapshotManager option"

text \<open>\<^verbatim>\<open>generateID\<close>: \<^verbatim>\<open>fmt.Sprintf("fc-%d", time.Now().UnixNano())\<close>.\<close>

definition generateID :: "int \<Rightarrow> string" where
  "generateID nanos = ''fc-'' @ string_of_int nanos"

text \<open>
  What the outside world answers during one \<^verbatim>\<open>CreateVM\<close>: the clock readings, and the
  results of \<^verbatim>\<open>os.MkdirAll\<close>, \<^verbatim>\<open>firecracker.NewMachine\<close>, \<^verbatim>\<open>machine.Start\<close> and
  \<^verbatim>\<open>machine.PID\<close> (\<open>None\<close> is a nil error).
\<close>

record CreateEnv =
  id_nanos :: int
  created_now :: time
  mkdir_err :: "error option"
  new_machine_err :: "error option"
  start_err :: "error option"
  machine_pid :: int
  started_now :: time

definition CreateVM :: "CreateEnv \<Rightarrow> World \<Rightarrow> VMConfig \<Rightarrow> (error + ref) \<times> World" where
  "CreateVM env w config0 =
    (let sandboxID = generateID (id_nanos env);
         r = next_ref w;
         m = manager w;
         sandbox = (NewSandbox sandboxID (created_now env))\<lparr>VsockCID := cidCounter m\<rparr>;
         m1 = m\<lparr>cidCounter := cidCounter m + 1\<rparr>;
         w1 = w\<lparr>heap := (heap w)(r := sandbox), next_ref := Suc r, manager := m1\<rparr>;
         sandboxDir = path_join (RuntimeDir (m_config m)) sandboxID
     in case mkdir_err env of
          Some e \<Rightarrow> (Inl (Wrapf ''failed to create sandbox dir'' e), w1)
        | None \<Rightarrow>
         (let socketPath = path_join sandboxDir ''firecracker.sock'';
              vsockPath = path_join sandboxDir ''vsock.sock'';
              sandbox1 = sandbox\<lparr>VsockPath := vsockPath\<rparr>;
              w2 = w1\<lparr>heap := (heap w1)(r := sandbox1)\<rparr>;
              config1 = (if KernelPath config0 = [] then
                           config0\<lparr>KernelPath := DefaultKernelPath (m_config m)\<rparr>
                         else config0);
              config = (if KernelArgs config1 = [] then
                          config1\<lparr>KernelArgs := DefaultKernelArgs (m_config m)\<rparr>
                        else config1);
              machine = \<lparr>SocketPath = socketPath, mc_VsockPath = vsockPath,
                          mc_CID = VsockCID sandbox1\<rparr>
          in case new_machine_err env of
               Some e \<Rightarrow> (Inl (Wrapf ''failed to create machine'' e), w2)
             | None \<Rightarrow>
              (case start_err env of
                 Some e \<Rightarrow> (Inl (Wrapf ''failed to start machine'' e), w2)
               | None \<Rightarrow>
                  (let sandbox2 = sandbox1\<lparr>VM := Some machine, sb_VMConfig := config,
                         PID := machine_pid env, State := SandboxReady,
                         StartedAt := started_now env\<rparr>;
                       m2 = m1\<lparr>sandboxes := AList.update sandboxID r (sandboxes m1)\<rparr>
                   in (Inr r, w2\<lparr>heap := (heap w2)(r := sandbox2), manager := m2\<rparr>)))))"

text \<open>
  One \<^verbatim>\<open>StopVM\<close>: the results of \<^verbatim>\<open>VM.Shutdown\<close> and \<^verbatim>\<open>VM.Wait\<close> (a failure of
  either is logged as a warning and nothing else; the result of \<^verbatim>\<open>StopVMM\<close> is
  dropped) and the clock reading stored as finished-at.
\<close>

record StopEnv =
  shutdown_err :: "error option"
  wait_err :: "error option"
  stop_now :: time

definition StopVM :: "StopEnv \<Rightarrow> World \<Rightarrow> ref \<Rightarrow> error option \<times> World" where
  "StopVM env w r =
    (let sandbox = heap w r
     in case VM sandbox of
          None \<Rightarrow> (Some (Errorf (''sandbox '' @ ID sandbox @ '' has no VM'')), w)
        | Some vm \<Rightarrow>
            (let m1 = warn_if (shutdown_err env) ''Graceful shutdown failed, forcing stop''
                        (manager w);
                 m2 = warn_if (wait_err env) ''Wait for VM exit failed'' m1
             in (None, w\<lparr>heap := (heap w)(r := sandbox\<lparr>State := SandboxStopped,
                                                          FinishedAt := stop_now env\<rparr>),
                          manager := m2\<rparr>)))"

text \<open>
  One \<^verbatim>\<open>DestroyVM\<close>: the \<^verbatim>\<open>StopVM\<close> it may run, and the results of
  \<^verbatim>\<open>AgentConn.Close\<close> and \<^verbatim>\<open>os.RemoveAll\<close>. An error of \<^verbatim>\<open>StopVM\<close> or of
  \<^verbatim>\<open>RemoveAll\<close> is logged as a warning; the result of \<^verbatim>\<open>Close\<close>, called when the
  sandbox has a connection, is dropped without a log line.
\<close>

record DestroyEnv =
  stop_env :: StopEnv
  close_err :: "error option"
  removeall_err :: "error option"

definition DestroyVM :: "DestroyEnv \<Rightarrow> World \<Rightarrow> ref \<Rightarrow> error option \<times> World" where
  "DestroyVM env w r =
    (let w1 = (if State (heap w r) = SandboxReady then
                 (case StopVM (stop_env env) w r of
                    (err, w') \<Rightarrow>
                      w'\<lparr>manager := warn_if err ''Error stopping VM during destroy'' (manager w')\<rparr>)
               else w);
         m = warn_if (removeall_err env) ''Failed to clean up sandbox directory'' (manager w1)
     in (None, w1\<lparr>manager := m\<lparr>sandboxes := AList.delete (ID (heap w1 r)) (sandboxes m)\<rparr>\<rparr>))"

section \<open>VM pool (pkg/vm/pool.go)\<close>

definition createFresh :: "CreateEnv \<Rightarrow> World \<Rightarrow> VMConfig \<Rightarrow> (error + ref) \<times> World" where
  "createFresh env w config =
    (case CreateVM env w config of
       (Inl err, w1) \<Rightarrow> (Inl err, w1)
     | (Inr r, w1) \<Rightarrow>
         (let p = pool w1
          in (Inr r, w1\<lparr>pool := p\<lparr>inUse := AList.update (ID (heap w1 r)) r (inUse p)\<rparr>\<rparr>)))"

definition customizeVM :: "World \<Rightarrow> ref \<Rightarrow> VMConfig \<Rightarrow> error option \<times> World" where
  "customizeVM w r config =
    (None, w\<lparr>heap := (heap w)(r := (heap w r)\<lparr>sb_VMConfig := config\<rparr>)\<rparr>)"

definition resetVM :: "World \<Rightarrow> ref \<Rightarrow> error option \<times> World" where
  "resetVM w r = (None, w\<lparr>heap := (heap w)(r := (heap w r)\<lparr>Containers := []\<rparr>)\<rparr>)"

text \<open>
  One \<^verbatim>\<open>Pool.Acquire\<close>: the \<^verbatim>\<open>DestroyVM\<close> of the customize-failure branch and the
  \<^verbatim>\<open>CreateVM\<close> of \<^verbatim>\<open>createFresh\<close>.
\<close>

record AcquireEnv =
  acq_destroy :: DestroyEnv
  acq_create :: CreateEnv

definition Acquire :: "AcquireEnv \<Rightarrow> World \<Rightarrow> VMConfig \<Rightarrow> (error + ref) \<times> World" where
  "Acquire env w config =
    (let p = pool w;
         st = stats p;
         p1 = p\<lparr>stats := st\<lparr>totalServed := totalServed st + 1\<rparr>\<rparr>
     in case available p1 of
          r # rest \<Rightarrow>
            (let st1 = stats p1;
                 p2 = p1\<lparr>available := rest, stats := st1\<lparr>poolHits := poolHits st1 + 1\<rparr>\<rparr>;
                 sandbox = (heap w r)\<lparr>FromPool := True\<rparr>;
                 p3 = p2\<lparr>inUse := AList.update (ID sandbox) r (inUse p2)\<rparr>;
                 w1 = w\<lparr>heap := (heap w)(r := sandbox), pool := p3\<rparr>
             in case customizeVM w1 r config of
                  (Some err, w2) \<Rightarrow>
                    createFresh (acq_create env) (snd (DestroyVM (acq_destroy env) w2 r)) config
                | (None, w2) \<Rightarrow> (Inr r, w2))
        | [] \<Rightarrow>
            (let st1 = stats p1;
                 p2 = p1\<lparr>stats := st1\<lparr>poolMisses := poolMisses st1 + 1\<rparr>\<rparr>
             in createFresh (acq_create env) (w\<lparr>pool := p2\<rparr>) config))"

text \<open>
  One \<^verbatim>\<open>Pool.Release\<close>: the clock reading behind \<^verbatim>\<open>time.Since(sandbox.CreatedAt)\<close>, the
  \<^verbatim>\<open>DestroyVM\<close> it may run, and the clock reading stored as pooled-at.
\<close>

record ReleaseEnv =
  rel_since_now :: time
  rel_destroy :: DestroyEnv
  rel_pooled_now :: time

definition Release :: "ReleaseEnv \<Rightarrow> World \<Rightarrow> ref \<Rightarrow> error option \<times> World" where
  "Release env w r =
    (let p = pool w;
         p1 = p\<lparr>inUse := AList.delete (ID (heap w r)) (inUse p)\<rparr>;
         w1 = w\<lparr>pool := p1\<rparr>;
         poolSize = int (length (available p1));
         vmAge = rel_since_now env - CreatedAt (heap w r)
     in if poolSize \<ge> MaxSize (p_config p1) \<or> vmAge > MaxIdleTime (p_config p1) then
          DestroyVM (rel_destroy env) w1 r
        else
          (case resetVM w1 r of
             (Some err, w2) \<Rightarrow> DestroyVM (rel_destroy env) w2 r
           | (None, w2) \<Rightarrow>
               (let w3 = w2\<lparr>heap := (heap w2)(r := (heap w2 r)\<lparr>PooledAt := rel_pooled_now env\<rparr>)\<rparr>;
                    p3 = pool w3
                in if int (length (available p3)) < MaxSize (p_config p3) then
                     (None, w3\<lparr>pool := p3\<lparr>available := available p3 @ [r]\<rparr>\<rparr>)
                   else (None, snd (DestroyVM (rel_destroy env) w3 r)))))"

definition Stats :: "World \<Rightarrow> PoolStats" where
  "Stats w =
    (let p = pool w
     in \<lparr>Available = int (length (available p)), InUse = int (length (inUse p)),
         ps_MaxSize = MaxSize (p_config p), TotalServed = totalServed (stats p),
         PoolHits = poolHits (stats p), PoolMisses = poolMisses (stats p)\<rparr>)"

section \<open>Snapshot manager and snapshot-aware pool (pkg/vm/snapshot.go)\<close>

definition HasGoldenSnapshot :: "SnapshotManager \<Rightarrow> bool" where
  "HasGoldenSnapshot sm = (goldenSnapshot sm \<noteq> None)"

text \<open>
  \<^verbatim>\<open>RestoreFromSnapshot\<close>, with the answers of the outside world as for \<^verbatim>\<open>CreateVM\<close>. The
  sandbox object is built only after the machine has started.
\<close>

definition RestoreFromSnapshot ::
  "CreateEnv \<Rightarrow> World \<Rightarrow> SnapshotManager \<Rightarrow> Snapshot \<Rightarrow> (error + ref) \<times> World" where
  "RestoreFromSnapshot env w sm snap =
    (if \<not> Enabled (sm_config sm) then (Inl (Errorf ''snapshots not enabled''), w)
     else
      (let sandboxID = ''fc-snap-'' @ string_of_int (id_nanos env);
           m = manager w;
           sandboxDir = path_join (RuntimeDir (m_config m)) sandboxID
       in case mkdir_err env of
            Some e \<Rightarrow> (Inl (Wrapf ''failed to create sandbox dir'' e), w)
          | None \<Rightarrow>
           (let socketPath = path_join sandboxDir ''firecracker.sock'';
                vsockPath = path_join sandboxDir ''vsock.sock'';
                cid = cidCounter m;
                m1 = m\<lparr>cidCounter := cidCounter m + 1\<rparr>;
                w1 = w\<lparr>manager := m1\<rparr>;
                machine = \<lparr>SocketPath = socketPath, mc_VsockPath = vsockPath, mc_CID = cid\<rparr>
            in case new_machine_err env of
                 Some e \<Rightarrow> (Inl (Wrapf ''failed to create machine for restore'' e), w1)
               | None \<Rightarrow>
                (case start_err env of
                   Some e \<Rightarrow> (Inl (Wrapf ''failed to restore VM'' e), w1)
                 | None \<Rightarrow>
                    (let r = next_ref w1;
                         sandbox = (NewSandbox sandboxID (created_now env))\<lparr>VM := Some machine,
                           sb_VMConfig := snap_VMConfig snap, VsockPath := vsockPath,
                           VsockCID := cid, PID := machine_pid env, State := SandboxReady,
                           StartedAt := started_now env, FromPool := True\<rparr>;
                         m2 = m1\<lparr>sandboxes := AList.update sandboxID r (sandboxes m1)\<rparr>
                     in (Inr r, w1\<lparr>heap := (heap w1)(r := sandbox), next_ref := Suc r,
                                   manager := m2\<rparr>))))))"

definition RestoreFromGolden ::
  "CreateEnv \<Rightarrow> World \<Rightarrow> SnapshotManager \<Rightarrow> (error + ref) \<times> World" where
  "RestoreFromGolden env w sm =
    (case goldenSnapshot sm of
       None \<Rightarrow> (Inl (Errorf ''no golden snapshot available''), w)
     | Some golden \<Rightarrow> RestoreFromSnapshot env w sm golden)"

text \<open>
  One \<^verbatim>\<open>SnapshotPool.Acquire\<close>: the embedded \<^verbatim>\<open>Pool.Acquire\<close>, the restore, and the
  \<^verbatim>\<open>CreateVM\<close> of the last \<^verbatim>\<open>createFresh\<close>.
\<close>

record SnapAcquireEnv =
  sa_pool :: AcquireEnv
  sa_restore :: CreateEnv
  sa_fallback :: CreateEnv

definition SnapshotPool_Acquire ::
  "SnapAcquireEnv \<Rightarrow> World \<Rightarrow> VMConfig \<Rightarrow> (error + ref) \<times> World" where
  "SnapshotPool_Acquire env w config =
    (case Acquire (sa_pool env) w config of
       (Inr r, w1) \<Rightarrow> (Inr r, w1)
     | (Inl err, w1) \<Rightarrow>
        (case snapshotMgr w1 of
           None \<Rightarrow> createFresh (sa_fallback env) w1 config
         | Some sm \<Rightarrow>
            (if HasGoldenSnapshot sm then
               (case RestoreFromGolden (sa_restore env) w1 sm of
                  (Inr r, w2) \<Rightarrow> (Inr r, snd (customizeVM w2 r config))
                | (Inl err2, w2) \<Rightarrow> createFresh (sa_fallback env) w2 config)
             else createFresh (sa_fallback env) w1 config)))"

text \<open>
  \<^verbatim>\<open>Cleanup\<close>. The loop keeps in \<open>oldest\<close> the non-golden snapshot created first among
  those visited so far; \<^verbatim>\<open>os.RemoveAll\<close> on the snapshot directory has no result the
  code reads.
\<close>

definition older :: "Snapshot option \<Rightarrow> string \<times> Snapshot \<Rightarrow> Snapshot option" where
  "older oldest kv =
    (let snap = snd kv
     in if IsGolden snap then oldest
        else (case oldest of
                None \<Rightarrow> Some snap
              | Some old \<Rightarrow> if snap_CreatedAt snap < snap_CreatedAt old then Some snap
                            else oldest))"

definition Cleanup :: "SnapshotManager \<Rightarrow> error option \<times> SnapshotManager" where
  "Cleanup sm =
    (if int (length (snapshots sm)) \<le> MaxCached (sm_config sm) then (None, sm)
     else
      (case foldl older None (snapshots sm) of
         None \<Rightarrow> (None, sm)
       | Some old \<Rightarrow> (None, sm\<lparr>snapshots := AList.delete (Name old) (snapshots sm)\<rparr>)))"

section \<open>Agent client (pkg/agent/client.go)\<close>

text \<open>
  JSON values as \<^verbatim>\<open>encoding/json\<close> holds them in an \<^verbatim>\<open>interface{}\<close>: a number is a
  float64 (here its exact rational value), an object is a map (an association list with
  distinct keys).
\<close>

datatype json = JNull | JBool bool | JNum rat | JStr string | JArr "json list"
  | JObj "(string \<times> json) list"

text \<open>Go's conversion \<^verbatim>\<open>int(f)\<close> of a float64 in range: the fraction is dropped.\<close>

definition go_int_of_float :: "rat \<Rightarrow> int" where
  "go_int_of_float q = (if 0 \<le> q then \<lfloor>q\<rfloor> else \<lceil>q\<rceil>)"

text \<open>
  float64 arithmetic, on the rational values of the floats. Every operation rounds its
  exact result to the nearest float64, ties to the even significand: \<open>float64_exponent q\<close>
  is the \<open>e\<close> with \<open>2^e \<le> |q| < 2^(e+1)\<close>, the significand has 53 bits, so neighbouring
  floats near \<open>q\<close> are \<open>2^(e-52)\<close> apart. Overflow and subnormal numbers do not occur for
  the magnitudes of a duration in seconds.
\<close>

definition pow2 :: "int \<Rightarrow> rat" where
  "pow2 e = (if 0 \<le> e then 2 ^ nat e else 1 / 2 ^ nat (- e))"

definition round_half_even :: "rat \<Rightarrow> int" where
  "round_half_even x =
    (let f = \<lfloor>x\<rfloor>; r = x - of_int f
     in if r < 1 / 2 then f else if 1 / 2 < r then f + 1 else if even f then f else f + 1)"

definition float64_exponent :: "rat \<Rightarrow> int" where
  "float64_exponent q =
    (let e0 = bitlen \<bar>fst (quotient_of q)\<bar> - bitlen (snd (quotient_of q))
     in if pow2 e0 \<le> \<bar>q\<bar> then e0 else e0 - 1)"

definition float64_round :: "rat \<Rightarrow> rat" where
  "float64_round q =
    (if q = 0 then 0
     else (let ulp = pow2 (float64_exponent q - 52)
           in of_int (round_half_even (q / ulp)) * ulp))"

text \<open>
  \<^verbatim>\<open>Duration.Seconds\<close> of the standard library:
  \<^verbatim>\<open>sec := d / Second; nsec := d % Second; return float64(sec) + float64(nsec)/1e9\<close>,
  with Go's integer division and remainder (towards zero, sign of the dividend). The
  client sends \<^verbatim>\<open>int(timeout.Seconds())\<close>.
\<close>

definition Duration_Seconds :: "Duration \<Rightarrow> rat" where
  "Duration_Seconds d =
    (let sec = d sdiv Second; nsec = d smod Second
     in float64_round (float64_round (of_int sec)
                        + float64_round (float64_round (of_int nsec) / 1000000000)))"

definition Duration_Seconds_int :: "Duration \<Rightarrow> int" where
  "Duration_Seconds_int d = go_int_of_float (Duration_Seconds d)"

record Request =
  req_ID :: "64 word"
  Method :: string
  Params :: "(string \<times> json) list"

record ResponseError =
  Code :: int
  Message :: string

record Response =
  resp_ID :: "64 word"
  Result :: json
  Error :: "ResponseError option"

text \<open>
  The client. \<open>conn\<close> says that \<^verbatim>\<open>c.conn\<close> is not nil. The other fields record what the
  client did and met outside: \<open>wire\<close> the requests written to the connection, oldest
  first; \<open>slept\<close> the total of its \<^verbatim>\<open>time.Sleep\<close> calls; \<open>elapsed\<close> the time that has
  passed since the client was made (in sleeps and in reads that waited for the deadline;
  every other step takes no time); \<open>conn_closed\<close> that the connection was closed.
\<close>

record Client =
  conn :: bool
  conn_closed :: bool
  requestID :: "64 word"
  wire :: "Request list"
  slept :: Duration
  elapsed :: Duration

definition NewClient :: Client where
  "NewClient = \<lparr>conn = False, conn_closed = False, requestID = 0, wire = [], slept = 0,
     elapsed = 0\<rparr>"

text \<open>
  The other end of the connection meets one request in one of four ways: the write
  fails; the write succeeds and the read fails at once (connection lost); a response
  arrives; or nothing ever arrives (\<open>Silent\<close>).
\<close>

datatype reply = SendFails error | ReadFails error | Replies Response | Silent

type_synonym Peer = "Request \<Rightarrow> reply"

text \<open>
  A context: its deadline, if it has one, and the instant at which it is cancelled, if
  it ever is; both on the client's time axis (time since the client was made).
  \<open>ctx_Err ctx now\<close> is \<^verbatim>\<open>ctx.Err()\<close> read at \<open>now\<close>, nil while the context is live.
\<close>

record Ctx =
  ctx_deadline :: "Duration option"
  ctx_cancel_at :: "Duration option"

definition deadline_passed :: "Ctx \<Rightarrow> Duration \<Rightarrow> bool" where
  "deadline_passed ctx now = (case ctx_deadline ctx of None \<Rightarrow> False | Some d \<Rightarrow> d \<le> now)"

definition cancelled :: "Ctx \<Rightarrow> Duration \<Rightarrow> bool" where
  "cancelled ctx now = (case ctx_cancel_at ctx of None \<Rightarrow> False | Some t \<Rightarrow> t \<le> now)"

definition cancel_first :: "Ctx \<Rightarrow> bool" where
  "cancel_first ctx =
    (case ctx_cancel_at ctx of
       None \<Rightarrow> False
     | Some t \<Rightarrow> (case ctx_deadline ctx of None \<Rightarrow> True | Some d \<Rightarrow> t < d))"

definition ctx_Err :: "Ctx \<Rightarrow> Duration \<Rightarrow> error option" where
  "ctx_Err ctx now =
    (if cancelled ctx now \<and> (cancel_first ctx \<or> \<not> deadline_passed ctx now) then
       Some (CtxErr ''context canceled'')
     else if deadline_passed ctx now then Some (CtxErr ''context deadline exceeded'')
     else None)"

text \<open>
  \<^verbatim>\<open>call\<close>. A result \<open>None\<close> means that the call never returns. When the context has a
  deadline the client puts it on the connection for the write and the read: a write
  after the deadline fails at once, and a read to which nothing arrives fails when the
  deadline comes. Without a deadline such a read blocks for ever (\<^verbatim>\<open>Decode\<close> has no
  other way out; a cancelled context does not wake it).
\<close>

definition call :: "Ctx \<Rightarrow> Peer \<Rightarrow> Client \<Rightarrow> Request \<Rightarrow> ((error + Response) \<times> Client) option" where
  "call ctx peer c req0 =
    (if \<not> conn c then Some (Inl (Errorf ''not connected''), c)
     else
      (let rid = requestID c + 1;
           c1 = c\<lparr>requestID := rid\<rparr>;
           req = req0\<lparr>req_ID := rid\<rparr>;
           c2 = c1\<lparr>wire := wire c1 @ [req]\<rparr>
       in if deadline_passed ctx (elapsed c) then
            Some (Inl (Wrapf ''failed to send request'' (External ''i/o timeout'')), c1)
          else
           (case peer req of
              SendFails e \<Rightarrow> Some (Inl (Wrapf ''failed to send request'' e), c1)
            | ReadFails e \<Rightarrow> Some (Inl (Wrapf ''failed to read response'' e), c2)
            | Silent \<Rightarrow>
                (case ctx_deadline ctx of
                   None \<Rightarrow> None
                 | Some d \<Rightarrow>
                     Some (Inl (Wrapf ''failed to read response'' (External ''i/o timeout'')),
                           c2\<lparr>elapsed := d\<rparr>))
            | Replies resp \<Rightarrow>
                (if resp_ID resp \<noteq> req_ID req then
                   Some (Inl (Errorf (''response ID mismatch: expected ''
                                 @ string_of_nat (unat rid) @ '', got ''
                                 @ string_of_nat (unat (resp_ID resp)))), c2)
                 else Some (Inr resp, c2)))))"

definition ping :: Request where
  "ping = \<lparr>req_ID = 0, Method = ''ping'', Params = []\<rparr>"

text \<open>\<^verbatim>\<open>time.Sleep(d)\<close>.\<close>

definition sleep :: "Duration \<Rightarrow> Client \<Rightarrow> Client" where
  "sleep d c = c\<lparr>slept := slept c + d, elapsed := elapsed c + d\<rparr>"

text \<open>The loop of \<^verbatim>\<open>waitForReady\<close>, from iteration \<open>i\<close> on.\<close>

function waitForReady_from ::
  "nat \<Rightarrow> Ctx \<Rightarrow> Peer \<Rightarrow> Client \<Rightarrow> (error option \<times> Client) option" where
  "waitForReady_from i ctx peer c =
    (if i < 30 then
       (case ctx_Err ctx (elapsed c) of
          Some e \<Rightarrow> Some (Some e, c)
        | None \<Rightarrow>
           (case call ctx peer c ping of
              None \<Rightarrow> None
            | Some (Inr resp, c1) \<Rightarrow>
                (if Error resp = None then Some (None, c1)
                 else waitForReady_from (Suc i) ctx peer (sleep (100 * Millisecond) c1))
            | Some (Inl err, c1) \<Rightarrow>
                waitForReady_from (Suc i) ctx peer (sleep (100 * Millisecond) c1)))
     else Some (Some (Errorf ''timeout waiting for agent''), c))"
  by pat_completeness auto
termination
  by (relation "measure (\<lambda>(i, ctx, peer, c). 30 - i)") auto

declare waitForReady_from.simps [simp del]

definition waitForReady :: "Ctx \<Rightarrow> Peer \<Rightarrow> Client \<Rightarrow> (error option \<times> Client) option" where
  "waitForReady ctx peer c = waitForReady_from 0 ctx peer c"

text \<open>
  One \<^verbatim>\<open>Connect\<close>: the results of \<^verbatim>\<open>vsock.Dial\<close> and of the fallback
  \<^verbatim>\<open>net.DialTimeout\<close> on the unix socket.
\<close>

record DialEnv =
  vsock_dial_err :: "error option"
  unix_dial_err :: "error option"

definition Connect ::
  "DialEnv \<Rightarrow> Ctx \<Rightarrow> Peer \<Rightarrow> Client \<Rightarrow> (error option \<times> Client) option" where
  "Connect env ctx peer c =
    (case (case vsock_dial_err env of None \<Rightarrow> None | Some e \<Rightarrow> unix_dial_err env) of
       Some err \<Rightarrow> Some (Some (Wrapf ''failed to connect to vsock'' err), c)
     | None \<Rightarrow>
        (case waitForReady ctx peer (c\<lparr>conn := True\<rparr>) of
           None \<Rightarrow> None
         | Some (Some err, c1) \<Rightarrow>
             Some (Some (Wrapf ''agent not ready'' err), c1\<lparr>conn_closed := True\<rparr>)
         | Some (None, c1) \<Rightarrow> Some (None, c1)))"

record ContainerSpec =
  cs_ID :: string
  BundlePath :: string
  Stdin :: bool
  Stdout :: bool
  Stderr :: bool
  Terminal :: bool

definition CreateContainer ::
  "Ctx \<Rightarrow> Peer \<Rightarrow> Client \<Rightarrow> ContainerSpec \<Rightarrow> (error option \<times> Client) option" where
  "CreateContainer ctx peer c spec =
    (case call ctx peer c \<lparr>req_ID = 0, Method = ''create_container'',
            Params = [(''id'', JStr (cs_ID spec)), (''bundle'', JStr (BundlePath spec)),
                      (''stdin'', JBool (Stdin spec)), (''stdout'', JBool (Stdout spec)),
                      (''stderr'', JBool (Stderr spec)), (''terminal'', JBool (Terminal spec))]\<rparr> of
       None \<Rightarrow> None
     | Some (Inl err, c1) \<Rightarrow> Some (Some err, c1)
     | Some (Inr resp, c1) \<Rightarrow>
        (case Error resp of
           Some e \<Rightarrow> Some (Some (Errorf (''create_container failed: '' @ Message e)), c1)
         | None \<Rightarrow> Some (None, c1)))"

definition StartContainer_request :: "string \<Rightarrow> Request" where
  "StartContainer_request containerID =
     \<lparr>req_ID = 0, Method = ''start_container'', Params = [(''id'', JStr containerID)]\<rparr>"

definition StartContainer ::
  "Ctx \<Rightarrow> Peer \<Rightarrow> Client \<Rightarrow> string \<Rightarrow> ((int \<times> error option) \<times> Client) option" where
  "StartContainer ctx peer c containerID =
    (case call ctx peer c (StartContainer_request containerID) of
       None \<Rightarrow> None
     | Some (Inl err, c1) \<Rightarrow> Some ((0, Some err), c1)
     | Some (Inr resp, c1) \<Rightarrow>
        (case Error resp of
           Some e \<Rightarrow> Some ((0, Some (Errorf (''start_container failed: '' @ Message e))), c1)
         | None \<Rightarrow>
            (case Result resp of
               JObj result \<Rightarrow>
                 (let pid = (case map_of result ''pid'' of Some (JNum f) \<Rightarrow> f | _ \<Rightarrow> 0)
                  in Some ((go_int_of_float pid, None), c1))
             | _ \<Rightarrow> Some ((0, Some (Errorf ''invalid response format'')), c1))))"

definition StopContainer_request :: "string \<Rightarrow> Duration \<Rightarrow> Request" where
  "StopContainer_request containerID timeout =
     \<lparr>req_ID = 0, Method = ''stop_container'',
      Params = [(''id'', JStr containerID),
                (''timeout'', JNum (of_int (Duration_Seconds_int timeout)))]\<rparr>"

definition StopContainer ::
  "Ctx \<Rightarrow> Peer \<Rightarrow> Client \<Rightarrow> string \<Rightarrow> Duration \<Rightarrow> (error option \<times> Client) option" where
  "StopContainer ctx peer c containerID timeout =
    (case call ctx peer c (StopContainer_request containerID timeout) of
       None \<Rightarrow> None
     | Some (Inl err, c1) \<Rightarrow> Some (Some err, c1)
     | Some (Inr resp, c1) \<Rightarrow>
        (case Error resp of
           Some e \<Rightarrow> Some (Some (Errorf (''stop_container failed: '' @ Message e)), c1)
         | None \<Rightarrow> Some (None, c1)))"

text \<open>
  The guest agent's side of \<^verbatim>\<open>stop_container\<close> (cmd/fc-agent/main.go, \<^verbatim>\<open>stopContainer\<close>):
  the two parameters it reads, the timeout in seconds with its default.
\<close>

definition agent_stop_params :: "(string \<times> json) list \<Rightarrow> string \<times> rat" where
  "agent_stop_params params =
    (let cid = (case map_of params ''id'' of Some (JStr v) \<Rightarrow> v | _ \<Rightarrow> []);
         timeout = (case map_of params ''timeout'' of Some (JNum f) \<Rightarrow> f | _ \<Rightarrow> 0)
     in (cid, if timeout = 0 then 10 else timeout))"

section \<open>Shim task service (pkg/shim)\<close>

record processState =
  ps_id :: string
  containerID :: string
  ps_pid :: int
  exitStatus :: int
  exitedAt :: "time option"
  ps_stdin :: string
  ps_stdout :: string
  ps_stderr :: string
  ps_terminal :: bool

record Service =
  sv_sandbox :: "ref option"
  sv_bundle :: string
  agentClient :: "Client option"
  processes :: "(string \<times> processState) list"

record CreateTaskRequest =
  ct_ID :: string
  ct_Bundle :: string
  ct_Rootfs :: "string list"
  ct_Stdin :: string
  ct_Stdout :: string
  ct_Stderr :: string
  ct_Terminal :: bool

text \<open>
  One \<^verbatim>\<open>Service.Create\<close>: what \<^verbatim>\<open>Pool.Acquire\<close> and \<^verbatim>\<open>Connect\<close> meet outside, the
  context of the request and the agent at the other end.
\<close>

record CreateTaskEnv =
  ce_acquire :: AcquireEnv
  ce_dial :: DialEnv
  ce_ctx :: Ctx
  ce_peer :: Peer

text \<open>The VM configuration \<^verbatim>\<open>Create\<close> builds: the defaults, with the first rootfs mount as root drive.\<close>

definition task_vmConfig :: "CreateTaskRequest \<Rightarrow> VMConfig" where
  "task_vmConfig r =
    (case ct_Rootfs r of
       [] \<Rightarrow> DefaultVMConfig
     | src # rest \<Rightarrow> DefaultVMConfig\<lparr>RootDrive :=
         \<lparr>DriveID = ''rootfs'', PathOnHost = src, IsReadOnly = False,
          IsRoot = True, CacheType = []\<rparr>\<rparr>)"

text \<open>\<^verbatim>\<open>Create\<close>; \<open>None\<close> when it never returns.\<close>

definition Create ::
  "CreateTaskEnv \<Rightarrow> World \<Rightarrow> Service \<Rightarrow> CreateTaskRequest
     \<Rightarrow> ((error + 32 word) \<times> World \<times> Service) option" where
  "Create env w s r =
    (let vmConfig = task_vmConfig r
     in case Acquire (ce_acquire env) w vmConfig of
          (Inl err, w1) \<Rightarrow> Some (Inl (Wrapf ''failed to acquire VM'' err), w1, s)
        | (Inr sandbox, w1) \<Rightarrow>
           (let s1 = s\<lparr>sv_sandbox := Some sandbox, sv_bundle := ct_Bundle r\<rparr>
            in case Connect (ce_dial env) (ce_ctx env) (ce_peer env) NewClient of
                 None \<Rightarrow> None
               | Some (Some err, c) \<Rightarrow>
                   Some (Inl (Wrapf ''failed to connect to agent'' err), w1,
                         s1\<lparr>agentClient := Some c\<rparr>)
               | Some (None, c) \<Rightarrow>
                  (case CreateContainer (ce_ctx env) (ce_peer env) c
                          \<lparr>cs_ID = ct_ID r, BundlePath = ct_Bundle r,
                           Stdin = (ct_Stdin r \<noteq> []), Stdout = (ct_Stdout r \<noteq> []),
                           Stderr = (ct_Stderr r \<noteq> []), Terminal = ct_Terminal r\<rparr> of
                     None \<Rightarrow> None
                   | Some (Some err, c1) \<Rightarrow>
                       Some (Inl (Wrapf ''failed to create container'' err), w1,
                             s1\<lparr>agentClient := Some c1\<rparr>)
                   | Some (None, c1) \<Rightarrow>
                      (let proc = \<lparr>ps_id = ct_ID r, containerID = ct_ID r, ps_pid = 0,
                                   exitStatus = 0, exitedAt = None, ps_stdin = ct_Stdin r,
                                   ps_stdout = ct_Stdout r, ps_stderr = ct_Stderr r,
                                   ps_terminal = ct_Terminal r\<rparr>
                       in Some (Inr (word_of_int (PID (heap w1 sandbox))), w1,
                                s1\<lparr>agentClient := Some c1,
                                   processes := AList.update (ct_ID r) proc (processes s1)\<rparr>)))))"

record StartRequest =
  st_ID :: string
  st_ExecID :: string

definition Start ::
  "Ctx \<Rightarrow> Peer \<Rightarrow> Service \<Rightarrow> StartRequest \<Rightarrow> ((error + 32 word) \<times> Service) option" where
  "Start ctx peer s r =
    (let procID = (if st_ExecID r \<noteq> [] then st_ExecID r else st_ID r)
     in case map_of (processes s) procID of
          None \<Rightarrow> Some (Inl (GRPC ErrNotFound (''process '' @ procID @ '' not found'')), s)
        | Some proc \<Rightarrow>
           (case agentClient s of
              None \<Rightarrow> Some (Inl (Panic ''nil pointer dereference''), s)
            | Some c \<Rightarrow>
               (case StartContainer ctx peer c (containerID proc) of
                  None \<Rightarrow> None
                | Some ((pid, Some err), c1) \<Rightarrow>
                    Some (Inl (Wrapf ''failed to start container'' err),
                          s\<lparr>agentClient := Some c1\<rparr>)
                | Some ((pid, None), c1) \<Rightarrow>
                    Some (Inr (word_of_int pid),
                          s\<lparr>agentClient := Some c1,
                            processes := AList.update procID (proc\<lparr>ps_pid := pid\<rparr>)
                                           (processes s)\<rparr>))))"

section \<open>Concrete scenarios\<close>

text \<open>Inputs for the worked examples: an empty world and answers of the outside world.\<close>

definition world0 :: World where
  "world0 = \<lparr>heap = (\<lambda>r. NewSandbox [] 0), next_ref = 0,
     manager = NewManager DefaultManagerConfig, pool = NewPool DefaultPoolConfig,
     snapshotMgr = None\<rparr>"

definition create_ok :: "int \<Rightarrow> CreateEnv" where
  "create_ok t = \<lparr>id_nanos = t, created_now = t, mkdir_err = None, new_machine_err = None,
     start_err = None, machine_pid = 4242, started_now = t\<rparr>"

definition create_fails :: "int \<Rightarrow> CreateEnv" where
  "create_fails t = \<lparr>id_nanos = t, created_now = t, mkdir_err = None, new_machine_err = None,
     start_err = Some (External ''kernel image missing''), machine_pid = 0, started_now = t\<rparr>"

definition stop_at :: "time \<Rightarrow> StopEnv" where
  "stop_at t = \<lparr>shutdown_err = None, wait_err = None, stop_now = t\<rparr>"

definition destroy_at :: "time \<Rightarrow> DestroyEnv" where
  "destroy_at t = \<lparr>stop_env = stop_at t, close_err = None, removeall_err = None\<rparr>"

definition destroy_failing_at :: "time \<Rightarrow> DestroyEnv" where
  "destroy_failing_at t =
     \<lparr>stop_env = \<lparr>shutdown_err = Some (External ''shutdown refused''),
                   wait_err = Some (External ''wait timed out''), stop_now = t\<rparr>,
      close_err = Some (External ''connection reset''),
      removeall_err = Some (External ''permission denied'')\<rparr>"

definition destroy_close_fails_at :: "time \<Rightarrow> DestroyEnv" where
  "destroy_close_fails_at t = \<lparr>stop_env = stop_at t,
     close_err = Some (External ''connection reset''), removeall_err = None\<rparr>"

text \<open>A world with one running sandbox, \<open>fc-7\<close> at address 0, created at instant 7.\<close>

definition world_ready :: World where
  "world_ready = snd (CreateVM (create_ok 7) world0 DefaultVMConfig)"

text \<open>
  The same running sandbox, holding an agent connection, in a world whose manager does
  not have it in its index; and a sandbox marked Ready that has no VM.
\<close>

definition world_unindexed :: World where
  "world_unindexed = world_ready\<lparr>
     heap := (heap world_ready)(0 := (heap world_ready 0)\<lparr>AgentConn := Some 1\<rparr>),
     manager := (manager world_ready)\<lparr>sandboxes := []\<rparr>\<rparr>"

definition world_no_vm :: World where
  "world_no_vm = world0\<lparr>heap := (heap world0)(0 := (NewSandbox ''sb1'' 7)\<lparr>State := SandboxReady\<rparr>),
     next_ref := 1,
     manager := (manager world0)\<lparr>sandboxes := [(''sb1'', 0)]\<rparr>\<rparr>"

text \<open>The same world after one \<^verbatim>\<open>StopVM\<close> at instant 100.\<close>

definition stopped_once :: World where
  "stopped_once = snd (StopVM (stop_at 100) world_ready 0)"

text \<open>The same world with the sandbox waiting in the ready queue, and more answers.\<close>

definition world_pooled :: World where
  "world_pooled = world_ready\<lparr>pool := (pool world_ready)\<lparr>available := [0]\<rparr>\<rparr>"

definition release_at :: "time \<Rightarrow> ReleaseEnv" where
  "release_at t = \<lparr>rel_since_now = t, rel_destroy = destroy_at t, rel_pooled_now = t\<rparr>"

definition acquire_env :: "int \<Rightarrow> AcquireEnv" where
  "acquire_env t = \<lparr>acq_destroy = destroy_at t, acq_create = create_ok t\<rparr>"

definition acquire_env_failing :: "int \<Rightarrow> AcquireEnv" where
  "acquire_env_failing t = \<lparr>acq_destroy = destroy_failing_at t, acq_create = create_fails t\<rparr>"

text \<open>Three snapshots, none golden, in a manager that may keep one.\<close>

definition snap_at :: "string \<Rightarrow> time \<Rightarrow> Snapshot" where
  "snap_at n t = \<lparr>Name = n,
     MemoryPath = path_join (path_join ''/var/lib/fc-cri/snapshots'' n) ''memory'',
     StatePath = path_join (path_join ''/var/lib/fc-cri/snapshots'' n) ''state'',
     snap_VMConfig = DefaultVMConfig, Version = ''1.0'', snap_CreatedAt = t, SizeBytes = 0,
     Metadata = [], IsGolden = False\<rparr>"

definition sm_three :: SnapshotManager where
  "sm_three = \<lparr>sm_config = DefaultSnapshotConfig\<lparr>Enabled := True, MaxCached := 1\<rparr>,
     snapshots = [(''a'', snap_at ''a'' 1), (''b'', snap_at ''b'' 2), (''c'', snap_at ''c'' 3)],
     goldenSnapshot = None\<rparr>"

text \<open>
  A connected client; contexts without and with a deadline; and agents: one that answers
  every request, one that never sends anything, and one that answers every request with
  the error of \<^verbatim>\<open>handleRequest\<close> for a method it does not know.
\<close>

definition ctx_background :: Ctx where
  "ctx_background = \<lparr>ctx_deadline = None, ctx_cancel_at = None\<rparr>"


definition peer_method_not_found :: Peer where
  "peer_method_not_found req = Replies \<lparr>resp_ID = req_ID req, Result = JNull,
     Error = Some \<lparr>Code = - 32601, Message = ''Method not found''\<rparr>\<rparr>"

definition connected_client :: Client where
  "connected_client = NewClient\<lparr>conn := True\<rparr>"

definition peer_ok :: Peer where
  "peer_ok req = Replies \<lparr>resp_ID = req_ID req, Result = JObj [(''status'', JStr ''ok'')],
     Error = None\<rparr>"


definition service_created :: Service where
  "service_created = \<lparr>sv_sandbox = Some 0, sv_bundle = ''/run/bundle/task-1'',
     agentClient = Some connected_client,
     processes = [(''task-1'', \<lparr>ps_id = ''task-1'', containerID = ''task-1'', ps_pid = 0,
       exitStatus = 0, exitedAt = None, ps_stdin = [], ps_stdout = [], ps_stderr = [],
       ps_terminal = False\<rparr>)]\<rparr>"

definition peer_no_pid :: Peer where
  "peer_no_pid req = Replies \<lparr>resp_ID = req_ID req, Result = JObj [(''status'', JStr ''started'')],
     Error = None\<rparr>"

text \<open>
  A run of \<^verbatim>\<open>Acquire\<close> calls, one after the other, each on the plain pool or through
  the snapshot-aware pool, each with its own answers of the outside world.
\<close>

datatype acquire_call = PoolAcquire AcquireEnv VMConfig
  | SnapshotPoolAcquire SnapAcquireEnv VMConfig

fun run_acquire :: "World \<Rightarrow> acquire_call \<Rightarrow> World" where
  "run_acquire w (PoolAcquire env config) = snd (Acquire env w config)"
| "run_acquire w (SnapshotPoolAcquire env config) = snd (SnapshotPool_Acquire env w config)"

definition run_acquires :: "World \<Rightarrow> acquire_call list \<Rightarrow> World" where
  "run_acquires w calls = foldl run_acquire w calls"

text \<open>
  The counters under concurrency. \<^verbatim>\<open>Acquire\<close> touches them in two atomic steps: it adds
  one to \<open>totalServed\<close> on entry, and later one to \<open>poolHits\<close> or to \<open>poolMisses\<close>. A state
  is the counters and the number of calls between their two steps; any interleaving of
  any number of calls is a sequence of these steps.
\<close>

inductive counter_step :: "poolStats \<times> nat \<Rightarrow> poolStats \<times> nat \<Rightarrow> bool" where
  enter: "counter_step (st, n) (st\<lparr>totalServed := totalServed st + 1\<rparr>, Suc n)"
| hit: "counter_step (st, Suc n) (st\<lparr>poolHits := poolHits st + 1\<rparr>, n)"
| miss: "counter_step (st, Suc n) (st\<lparr>poolMisses := poolMisses st + 1\<rparr>, n)"

text \<open>A snapshot manager with a golden snapshot, over an empty pool.\<close>

definition golden :: Snapshot where
  "golden = (snap_at ''golden-base'' 5)\<lparr>IsGolden := True\<rparr>"

definition sm_golden :: SnapshotManager where
  "sm_golden = \<lparr>sm_config = DefaultSnapshotConfig\<lparr>Enabled := True\<rparr>,
     snapshots = [(''golden-base'', golden)], goldenSnapshot = Some golden\<rparr>"

definition world_golden :: World where
  "world_golden = world0\<lparr>snapshotMgr := Some sm_golden\<rparr>"

text \<open>Every VM start succeeds; and: the fresh create inside \<^verbatim>\<open>Pool.Acquire\<close> fails.\<close>

definition snap_env_ok :: SnapAcquireEnv where
  "snap_env_ok = \<lparr>sa_pool = acquire_env 7, sa_restore = create_ok 8, sa_fallback = create_ok 9\<rparr>"

definition snap_env_create_fails :: SnapAcquireEnv where
  "snap_env_create_fails =
     \<lparr>sa_pool = acquire_env_failing 7, sa_restore = create_ok 8, sa_fallback = create_ok 9\<rparr>"

text \<open>The world after the snapshot-aware acquire whose fresh create failed.\<close>

definition restored_world :: World where
  "restored_world = snd (SnapshotPool_Acquire snap_env_create_fails world_golden DefaultVMConfig)"

text \<open>A task, a service before \<^verbatim>\<open>Create\<close>, and an agent that never answers.\<close>

definition task1 :: CreateTaskRequest where
  "task1 = \<lparr>ct_ID = ''task-1'', ct_Bundle = ''/run/bundle/task-1'',
     ct_Rootfs = [''/img/a.ext4''], ct_Stdin = [], ct_Stdout = [], ct_Stderr = [],
     ct_Terminal = False\<rparr>"

definition service0 :: Service where
  "service0 = \<lparr>sv_sandbox = None, sv_bundle = [], agentClient = None, processes = []\<rparr>"



definition env_ping_refused :: CreateTaskEnv where
  "env_ping_refused = \<lparr>ce_acquire = acquire_env 7,
     ce_dial = \<lparr>vsock_dial_err = None, unix_dial_err = None\<rparr>,
     ce_ctx = ctx_background, ce_peer = peer_method_not_found\<rparr>"

text \<open>
  The error \<^verbatim>\<open>Create\<close> returns when \<^verbatim>\<open>Connect\<close> gave up waiting with error \<open>e\<close>:
  \<^verbatim>\<open>failed to connect to agent: agent not ready: e\<close>.
\<close>

definition connect_error :: "error \<Rightarrow> error" where
  "connect_error e = Wrapf ''failed to connect to agent'' (Wrapf ''agent not ready'' e)"



definition after_create_refused :: "(error + 32 word) \<times> World \<times> Service" where
  "after_create_refused = the (Create env_ping_refused world0 service0 task1)"

section \<open>Properties\<close>

subsection \<open>Frame lemmas of the manager\<close>

lemma StopVM_pool [simp]: "pool (snd (StopVM e w r)) = pool w"
  by (simp add: StopVM_def Let_def split: option.splits)

lemma warn_if_frame [simp]:
  "sandboxes (warn_if err msg m) = sandboxes m"
  "cidCounter (warn_if err msg m) = cidCounter m"
  "m_config (warn_if err msg m) = m_config m"
  by (simp_all add: warn_if_def split: option.splits)

lemma StopVM_manager [simp]:
  "sandboxes (manager (snd (StopVM e w r))) = sandboxes (manager w)"
  "cidCounter (manager (snd (StopVM e w r))) = cidCounter (manager w)"
  "m_config (manager (snd (StopVM e w r))) = m_config (manager w)"
  by (simp_all add: StopVM_def Let_def split: option.splits)

lemma StopVM_ID [simp]: "ID (heap (snd (StopVM e w r)) r') = ID (heap w r')"
  by (simp add: StopVM_def Let_def split: option.splits)

lemma StopVM_snapshotMgr [simp]: "snapshotMgr (snd (StopVM e w r)) = snapshotMgr w"
  by (simp add: StopVM_def Let_def split: option.splits)

lemma StopVM_next_ref [simp]: "next_ref (snd (StopVM e w r)) = next_ref w"
  by (simp add: StopVM_def Let_def split: option.splits)

lemma DestroyVM_pool [simp]: "pool (snd (DestroyVM e w r)) = pool w"
  by (simp add: DestroyVM_def StopVM_def Let_def split: option.splits)

lemma DestroyVM_snapshotMgr [simp]: "snapshotMgr (snd (DestroyVM e w r)) = snapshotMgr w"
  by (simp add: DestroyVM_def StopVM_def Let_def split: option.splits)

subsection \<open>StopVM and DestroyVM\<close>

text \<open>
  C6, as the code has it. Once a \<^verbatim>\<open>StopVM\<close> on a sandbox has returned nil, a second
  \<^verbatim>\<open>StopVM\<close> on it returns nil as well and the state stays Stopped; it is not a no-op:
  there is no guard on the state, the shutdown and the wait run again, and finished-at is
  overwritten with the clock reading of the second call.
\<close>

theorem StopVM_twice:
  "StopVM e1 w r = (None, w1) \<Longrightarrow>
     fst (StopVM e2 w1 r) = None
     \<and> State (heap w1 r) = SandboxStopped
     \<and> State (heap (snd (StopVM e2 w1 r)) r) = SandboxStopped
     \<and> FinishedAt (heap w1 r) = stop_now e1
     \<and> FinishedAt (heap (snd (StopVM e2 w1 r)) r) = stop_now e2"
  by (auto simp: StopVM_def Let_def split: option.splits)

theorem StopVM_twice_witness:
  "StopVM (stop_at 100) world_ready 0 = (None, stopped_once)
   \<and> fst (StopVM (stop_at 200) stopped_once 0) = None
   \<and> State (heap (snd (StopVM (stop_at 200) stopped_once 0)) 0) = SandboxStopped
   \<and> FinishedAt (heap (snd (StopVM (stop_at 200) stopped_once 0)) 0) = 200"
proof -
  have h: "StopVM (stop_at 100) world_ready 0 = (None, stopped_once)"
    unfolding stopped_once_def
    by (rule prod_eqI) (simp_all, code_simp)
  from StopVM_twice [OF h, of "stop_at 200"] h show ?thesis
    by (simp add: stop_at_def)
qed

text \<open>
  C6 as stated fails: the sandbox \<open>fc-7\<close> is stopped at instant 100 and again at instant
  200; both calls return nil, and the second moves finished-at from 100 to 200.
\<close>

theorem StopVM_second_call_counterexample:
  "fst (StopVM (stop_at 100) world_ready 0) = None
   \<and> fst (StopVM (stop_at 200) stopped_once 0) = None
   \<and> FinishedAt (heap stopped_once 0) = 100
   \<and> FinishedAt (heap (snd (StopVM (stop_at 200) stopped_once 0)) 0) = 200
   \<and> FinishedAt (heap (snd (StopVM (stop_at 200) stopped_once 0)) 0)
        \<noteq> FinishedAt (heap stopped_once 0)"
  unfolding stopped_once_def by code_simp

text \<open>
  C9, as the code has it. \<^verbatim>\<open>DestroyVM\<close> returns nil whatever the sandbox and whatever
  \<^verbatim>\<open>StopVM\<close>, \<^verbatim>\<open>AgentConn.Close\<close> and \<^verbatim>\<open>os.RemoveAll\<close> answer. It logs a warning for a
  failed \<^verbatim>\<open>StopVM\<close> (inside it, for a failed shutdown or wait) and for a failed
  \<^verbatim>\<open>RemoveAll\<close>, and nothing for a failed \<^verbatim>\<open>Close\<close>. It takes the sandbox's id out of the
  index; for a sandbox that is not in the index the index, the CID counter and the
  configuration stay as they were. It is a no-op on the sandbox only when the sandbox is
  not Ready: a Ready sandbox with a VM is stopped, in the index or not.
\<close>

theorem DestroyVM_returns_nil:
  "fst (DestroyVM env w r) = None
   \<and> sandboxes (manager (snd (DestroyVM env w r)))
       = AList.delete (ID (heap w r)) (sandboxes (manager w))
   \<and> cidCounter (manager (snd (DestroyVM env w r))) = cidCounter (manager w)
   \<and> m_config (manager (snd (DestroyVM env w r))) = m_config (manager w)
   \<and> (map_of (sandboxes (manager w)) (ID (heap w r)) = None
        \<longrightarrow> sandboxes (manager (snd (DestroyVM env w r))) = sandboxes (manager w))
   \<and> m_warnings (manager (snd (DestroyVM env w r)))
       = m_warnings (manager w)
         @ (if State (heap w r) = SandboxReady then
              (case VM (heap w r) of
                 None \<Rightarrow> [''Error stopping VM during destroy'']
               | Some vm \<Rightarrow>
                   (case shutdown_err (stop_env env) of
                      None \<Rightarrow> [] | Some e \<Rightarrow> [''Graceful shutdown failed, forcing stop''])
                   @ (case wait_err (stop_env env) of
                        None \<Rightarrow> [] | Some e \<Rightarrow> [''Wait for VM exit failed'']))
            else [])
         @ (case removeall_err env of
              None \<Rightarrow> [] | Some e \<Rightarrow> [''Failed to clean up sandbox directory''])
   \<and> (State (heap w r) = SandboxReady \<and> VM (heap w r) \<noteq> None
        \<longrightarrow> heap (snd (DestroyVM env w r))
              = (heap w)(r := (heap w r)\<lparr>State := SandboxStopped,
                                          FinishedAt := stop_now (stop_env env)\<rparr>))
   \<and> (State (heap w r) \<noteq> SandboxReady \<or> VM (heap w r) = None
        \<longrightarrow> heap (snd (DestroyVM env w r)) = heap w)"
  by (auto simp: DestroyVM_def StopVM_def Let_def warn_if_def map_of_eq_None_iff
      split: option.splits)

theorem DestroyVM_returns_nil_witness:
  "map_of (sandboxes (manager world_unindexed)) (ID (heap world_unindexed 0)) = None
   \<and> State (heap world_unindexed 0) = SandboxReady \<and> VM (heap world_unindexed 0) \<noteq> None
   \<and> fst (DestroyVM (destroy_failing_at 9) world_unindexed 0) = None
   \<and> sandboxes (manager (snd (DestroyVM (destroy_failing_at 9) world_unindexed 0))) = []
   \<and> m_warnings (manager (snd (DestroyVM (destroy_failing_at 9) world_unindexed 0)))
       = [''Graceful shutdown failed, forcing stop'', ''Wait for VM exit failed'',
          ''Failed to clean up sandbox directory'']
   \<and> State (heap (snd (DestroyVM (destroy_failing_at 9) world_unindexed 0)) 0) = SandboxStopped
   \<and> State (heap stopped_once 0) = SandboxStopped
   \<and> heap (snd (DestroyVM (destroy_failing_at 9) stopped_once 0)) = heap stopped_once
   \<and> fst (DestroyVM (destroy_failing_at 9) world_no_vm 0) = None
   \<and> m_warnings (manager (snd (DestroyVM (destroy_failing_at 9) world_no_vm 0)))
       = [''Error stopping VM during destroy'', ''Failed to clean up sandbox directory'']"
proof -
  have h1: "map_of (sandboxes (manager world_unindexed)) (ID (heap world_unindexed 0)) = None"
    by (simp add: world_unindexed_def)
  have h2: "State (heap world_unindexed 0) = SandboxReady \<and> VM (heap world_unindexed 0) \<noteq> None"
    by code_simp
  have h3: "State (heap stopped_once 0) = SandboxStopped"
    by code_simp
  have h4: "m_warnings (manager world_unindexed) = []"
    by code_simp
  have h5: "State (heap world_no_vm 0) = SandboxReady \<and> VM (heap world_no_vm 0) = None
      \<and> m_warnings (manager world_no_vm) = []"
    by code_simp
  have h6: "sandboxes (manager world_unindexed) = []"
    by (simp add: world_unindexed_def)
  from h2 obtain vm where vm: "VM (heap world_unindexed 0) = Some vm"
    by auto
  from DestroyVM_returns_nil [of "destroy_failing_at 9" world_unindexed 0]
       DestroyVM_returns_nil [of "destroy_failing_at 9" stopped_once 0]
       DestroyVM_returns_nil [of "destroy_failing_at 9" world_no_vm 0]
       h1 h2 h3 h4 h5 h6 vm
  show ?thesis
    by (simp add: destroy_failing_at_def)
qed

text \<open>
  C9 as stated fails on two points. The running sandbox \<open>fc-7\<close> is not in the manager's
  index and holds an agent connection; \<^verbatim>\<open>Close\<close> fails, everything else succeeds.
  \<^verbatim>\<open>DestroyVM\<close> returns nil, but it is not a no-op (the sandbox goes from Ready to
  Stopped and gets finished-at 9), and the failed \<^verbatim>\<open>Close\<close> is not logged (the log stays
  empty).
\<close>

theorem DestroyVM_unindexed_counterexample:
  "map_of (sandboxes (manager world_unindexed)) (ID (heap world_unindexed 0)) = None
   \<and> AgentConn (heap world_unindexed 0) = Some 1
   \<and> close_err (destroy_close_fails_at 9) = Some (External ''connection reset'')
   \<and> fst (DestroyVM (destroy_close_fails_at 9) world_unindexed 0) = None
   \<and> State (heap world_unindexed 0) = SandboxReady
   \<and> State (heap (snd (DestroyVM (destroy_close_fails_at 9) world_unindexed 0)) 0) = SandboxStopped
   \<and> FinishedAt (heap world_unindexed 0) = 0
   \<and> FinishedAt (heap (snd (DestroyVM (destroy_close_fails_at 9) world_unindexed 0)) 0) = 9
   \<and> m_warnings (manager world_unindexed) = []
   \<and> m_warnings (manager (snd (DestroyVM (destroy_close_fails_at 9) world_unindexed 0))) = []"
  by code_simp

subsection \<open>Pool: customize and reset\<close>

text \<open>
  C8. \<^verbatim>\<open>customizeVM\<close> and \<^verbatim>\<open>resetVM\<close> return nil on every input; the first only
  overwrites the stored VMConfig, the second only empties the container map. So a pool
  hit in \<^verbatim>\<open>Acquire\<close> always returns the dequeued sandbox: the result does not depend on
  what \<^verbatim>\<open>DestroyVM\<close> or \<^verbatim>\<open>CreateVM\<close> would answer, the manager is untouched and no
  sandbox is allocated. And a \<^verbatim>\<open>Release\<close> that passes the size and age check always
  enqueues the sandbox, without stopping it.
\<close>

theorem customizeVM_resetVM_return_nil:
  "fst (customizeVM w r config) = None
   \<and> snd (customizeVM w r config) = w\<lparr>heap := (heap w)(r := (heap w r)\<lparr>sb_VMConfig := config\<rparr>)\<rparr>
   \<and> fst (resetVM w r) = None
   \<and> snd (resetVM w r) = w\<lparr>heap := (heap w)(r := (heap w r)\<lparr>Containers := []\<rparr>)\<rparr>
   \<and> (available (pool w) = r # rest \<longrightarrow>
        fst (Acquire env w config) = Inr r
        \<and> Acquire env w config = Acquire env' w config
        \<and> manager (snd (Acquire env w config)) = manager w
        \<and> next_ref (snd (Acquire env w config)) = next_ref w
        \<and> heap (snd (Acquire env w config))
            = (heap w)(r := (heap w r)\<lparr>FromPool := True, sb_VMConfig := config\<rparr>))
   \<and> (\<not> (int (length (available (pool w))) \<ge> MaxSize (p_config (pool w))
            \<or> rel_since_now renv - CreatedAt (heap w r) > MaxIdleTime (p_config (pool w))) \<longrightarrow>
        fst (Release renv w r) = None
        \<and> available (pool (snd (Release renv w r))) = available (pool w) @ [r]
        \<and> manager (snd (Release renv w r)) = manager w
        \<and> State (heap (snd (Release renv w r)) r) = State (heap w r))"
  by (simp add: customizeVM_def resetVM_def Acquire_def Release_def Let_def)

theorem customizeVM_resetVM_return_nil_witness:
  "available (pool world_pooled) = 0 # []
   \<and> fst (Acquire (acquire_env_failing 9) world_pooled DefaultVMConfig) = Inr 0
   \<and> \<not> (int (length (available (pool world_ready))) \<ge> MaxSize (p_config (pool world_ready))
            \<or> rel_since_now (release_at 8) - CreatedAt (heap world_ready 0)
                 > MaxIdleTime (p_config (pool world_ready)))
   \<and> available (pool (snd (Release (release_at 8) world_ready 0))) = [0]"
proof -
  have h1: "available (pool world_pooled) = 0 # []"
    by (simp add: world_pooled_def)
  have h2: "\<not> (int (length (available (pool world_ready))) \<ge> MaxSize (p_config (pool world_ready))
            \<or> rel_since_now (release_at 8) - CreatedAt (heap world_ready 0)
                 > MaxIdleTime (p_config (pool world_ready)))"
    by code_simp
  have h3: "available (pool world_ready) = []"
    by code_simp
  from customizeVM_resetVM_return_nil [of world_pooled 0 DefaultVMConfig "[]"
      "acquire_env_failing 9" "acquire_env_failing 9" "release_at 8"] h1
    customizeVM_resetVM_return_nil [of world_ready 0 DefaultVMConfig "[]"
      "acquire_env_failing 9" "acquire_env_failing 9" "release_at 8"] h2 h3
  show ?thesis by simp
qed

subsection \<open>Snapshot cleanup\<close>

lemma length_delete_distinct:
  "distinct (map fst al) \<Longrightarrow> length al \<le> Suc (length (AList.delete k al))"
  by (induction al) (auto simp: rev_image_eqI)

lemma Cleanup_at_most_one:
  "distinct (map fst (snapshots sm)) \<Longrightarrow>
     length (snapshots sm) \<le> Suc (length (snapshots (snd (Cleanup sm))))"
  by (auto simp: Cleanup_def length_delete_distinct split: option.splits)

text \<open>
  C5 at a concrete input. Three snapshots \<open>a\<close>, \<open>b\<close>, \<open>c\<close> created at instants 1, 2, 3,
  none golden, and \<open>MaxCached = 1\<close>: one \<^verbatim>\<open>Cleanup\<close> deletes the oldest, \<open>a\<close>, and
  returns; two snapshots stay, more than \<open>MaxCached\<close>. The body of \<^verbatim>\<open>Cleanup\<close> has no
  loop around the search for the oldest snapshot.
\<close>

theorem Cleanup_removes_one_only:
  "MaxCached (sm_config sm_three) = 1
   \<and> map (\<lambda>kv. IsGolden (snd kv)) (snapshots sm_three) = [False, False, False]
   \<and> fst (Cleanup sm_three) = None
   \<and> map fst (snapshots (snd (Cleanup sm_three))) = [''b'', ''c'']
   \<and> int (length (snapshots (snd (Cleanup sm_three)))) > MaxCached (sm_config (snd (Cleanup sm_three)))"
  by code_simp

subsection \<open>Pool counters\<close>

lemma CreateVM_pool [simp]: "pool (snd (CreateVM env w config)) = pool w"
  by (simp add: CreateVM_def Let_def split: option.splits)

lemma CreateVM_snapshotMgr [simp]: "snapshotMgr (snd (CreateVM env w config)) = snapshotMgr w"
  by (simp add: CreateVM_def Let_def split: option.splits)

lemma createFresh_stats [simp]: "stats (pool (snd (createFresh env w config))) = stats (pool w)"
proof -
  have "pool (snd (CreateVM env w config)) = pool w" by simp
  then show ?thesis
    by (cases "CreateVM env w config"; cases "fst (CreateVM env w config)")
       (auto simp: createFresh_def Let_def)
qed

lemma customizeVM_pool [simp]: "pool (snd (customizeVM w r config)) = pool w"
  by (simp add: customizeVM_def)

lemma RestoreFromGolden_pool [simp]: "pool (snd (RestoreFromGolden env w sm)) = pool w"
  by (simp add: RestoreFromGolden_def RestoreFromSnapshot_def Let_def split: option.splits)

lemma Acquire_stats:
  "stats (pool (snd (Acquire env w config)))
     = (case available (pool w) of
          [] \<Rightarrow> (stats (pool w))\<lparr>totalServed := totalServed (stats (pool w)) + 1,
                                 poolMisses := poolMisses (stats (pool w)) + 1\<rparr>
        | r # rest \<Rightarrow> (stats (pool w))\<lparr>totalServed := totalServed (stats (pool w)) + 1,
                                       poolHits := poolHits (stats (pool w)) + 1\<rparr>)"
  by (simp add: Acquire_def Let_def customizeVM_def split: list.splits)

lemma SnapshotPool_Acquire_stats:
  "stats (pool (snd (SnapshotPool_Acquire env w config)))
     = stats (pool (snd (Acquire (sa_pool env) w config)))"
proof (cases "Acquire (sa_pool env) w config")
  case (Pair res w1)
  show ?thesis
  proof (cases res)
    case (Inr r)
    with Pair show ?thesis by (simp add: SnapshotPool_Acquire_def)
  next
    case (Inl err)
    show ?thesis
    proof (cases "snapshotMgr w1")
      case None
      with Pair Inl show ?thesis by (simp add: SnapshotPool_Acquire_def)
    next
      case (Some sm)
      show ?thesis
      proof (cases "RestoreFromGolden (sa_restore env) w1 sm")
        case (Pair res2 w2)
        have p2: "pool w2 = pool w1"
          using RestoreFromGolden_pool [of "sa_restore env" w1 sm] Pair by simp
        show ?thesis
          using \<open>Acquire (sa_pool env) w config = (res, w1)\<close> Inl Some Pair p2
          by (cases res2) (simp_all add: SnapshotPool_Acquire_def)
      qed
    qed
  qed
qed

lemma run_acquire_counters:
  "totalServed (stats (pool (run_acquire w c))) = totalServed (stats (pool w)) + 1
   \<and> poolHits (stats (pool (run_acquire w c))) + poolMisses (stats (pool (run_acquire w c)))
       = poolHits (stats (pool w)) + poolMisses (stats (pool w)) + 1"
  by (cases c) (simp_all add: SnapshotPool_Acquire_stats Acquire_stats split: list.splits)

lemma Stats_counters [simp]:
  "PoolHits (Stats w) = poolHits (stats (pool w))"
  "PoolMisses (Stats w) = poolMisses (stats (pool w))"
  "TotalServed (Stats w) = totalServed (stats (pool w))"
  by (simp_all add: Stats_def Let_def)

text \<open>
  C4. Over any run of \<^verbatim>\<open>Acquire\<close> calls (plain or snapshot-aware, hit, miss or
  fallback, whatever the outside world answers) from a pool whose counters agree,
  \<^verbatim>\<open>Stats\<close> reports hits + misses = total served, and total served has grown by exactly
  the number of calls. The counters are int64, so the sums are read modulo \<open>2^64\<close>.
\<close>

theorem acquire_counters:
  "poolHits (stats (pool w)) + poolMisses (stats (pool w)) = totalServed (stats (pool w)) \<Longrightarrow>
     PoolHits (Stats (run_acquires w calls)) + PoolMisses (Stats (run_acquires w calls))
       = TotalServed (Stats (run_acquires w calls))
     \<and> TotalServed (Stats (run_acquires w calls))
       = totalServed (stats (pool w)) + of_nat (length calls)"
proof (induction calls arbitrary: w)
  case Nil
  then show ?case by (simp add: run_acquires_def)
next
  case (Cons c calls)
  have "poolHits (stats (pool (run_acquire w c))) + poolMisses (stats (pool (run_acquire w c)))
          = totalServed (stats (pool (run_acquire w c)))"
    using Cons.prems run_acquire_counters [of w c] by simp
  from Cons.IH [OF this] run_acquire_counters [of w c]
  show ?case by (simp add: run_acquires_def)
qed

text \<open>
  The same under any interleaving of the atomic counter steps: in every reachable state
  total served = hits + misses + the calls that have entered and not yet counted their
  hit or miss; with no call in flight the three counters agree.
\<close>

lemma counter_step_invariant:
  "counter_step s s' \<Longrightarrow>
     poolHits (fst s) + poolMisses (fst s) + of_nat (snd s) = totalServed (fst s) \<Longrightarrow>
     poolHits (fst s') + poolMisses (fst s') + of_nat (snd s') = totalServed (fst s')"
  by (induction rule: counter_step.induct) (auto simp: algebra_simps)

lemma acquire_counters_interleaved:
  assumes "counter_step\<^sup>*\<^sup>* (st0, 0) (st, n)"
    and "poolHits st0 + poolMisses st0 = totalServed st0"
  shows "poolHits st + poolMisses st + of_nat n = totalServed st"
proof -
  have "counter_step\<^sup>*\<^sup>* s s' \<Longrightarrow>
      poolHits (fst s) + poolMisses (fst s) + of_nat (snd s) = totalServed (fst s) \<Longrightarrow>
      poolHits (fst s') + poolMisses (fst s') + of_nat (snd s') = totalServed (fst s')" for s s'
    by (induction rule: rtranclp_induct) (auto dest: counter_step_invariant)
  from this [OF assms(1)] assms(2) show ?thesis by simp
qed

theorem acquire_counters_witness:
  "poolHits (stats (pool world_pooled)) + poolMisses (stats (pool world_pooled))
     = totalServed (stats (pool world_pooled))
   \<and> Stats (run_acquires world_pooled
        [PoolAcquire (acquire_env 11) DefaultVMConfig,
         PoolAcquire (acquire_env 12) DefaultVMConfig,
         SnapshotPoolAcquire snap_env_create_fails DefaultVMConfig])
      = \<lparr>Available = 0, InUse = 3, ps_MaxSize = 10, TotalServed = 3, PoolHits = 1,
         PoolMisses = 2\<rparr>"
proof -
  have h: "poolHits (stats (pool world_pooled)) + poolMisses (stats (pool world_pooled))
     = totalServed (stats (pool world_pooled))"
    by code_simp
  have e: "Stats (run_acquires world_pooled
        [PoolAcquire (acquire_env 11) DefaultVMConfig,
         PoolAcquire (acquire_env 12) DefaultVMConfig,
         SnapshotPoolAcquire snap_env_create_fails DefaultVMConfig])
      = \<lparr>Available = 0, InUse = 3, ps_MaxSize = 10, TotalServed = 3, PoolHits = 1,
         PoolMisses = 2\<rparr>"
    by code_simp
  from acquire_counters [OF h, of "[PoolAcquire (acquire_env 11) DefaultVMConfig,
         PoolAcquire (acquire_env 12) DefaultVMConfig,
         SnapshotPoolAcquire snap_env_create_fails DefaultVMConfig]"] h e
  show ?thesis by simp
qed

subsection \<open>Snapshot-aware acquire\<close>

lemma SnapshotPool_Acquire_fresh_first:
  "fst (Acquire (sa_pool env) w config) = Inr r \<Longrightarrow>
     SnapshotPool_Acquire env w config = Acquire (sa_pool env) w config"
  by (cases "Acquire (sa_pool env) w config") (simp add: SnapshotPool_Acquire_def)

text \<open>
  C1 at a concrete input. The ready queue is empty, a snapshot manager is configured, it
  has a golden snapshot, and a restore from it would succeed. \<^verbatim>\<open>SnapshotPool.Acquire\<close>
  first runs \<^verbatim>\<open>Pool.Acquire\<close>, which on a miss creates a fresh VM; that succeeds, so the
  returned sandbox is the fresh \<open>fc-7\<close> of the lifecycle manager (not from the pool, one
  CID used) and the golden snapshot is never restored.
\<close>

theorem SnapshotPool_Acquire_fresh_despite_golden:
  "available (pool world_golden) = []
   \<and> snapshotMgr world_golden = Some sm_golden
   \<and> HasGoldenSnapshot sm_golden
   \<and> fst (RestoreFromGolden (sa_restore snap_env_ok) world_golden sm_golden) = Inr 0
   \<and> fst (SnapshotPool_Acquire snap_env_ok world_golden DefaultVMConfig) = Inr 0
   \<and> ID (heap (snd (SnapshotPool_Acquire snap_env_ok world_golden DefaultVMConfig)) 0) = ''fc-7''
   \<and> FromPool (heap (snd (SnapshotPool_Acquire snap_env_ok world_golden DefaultVMConfig)) 0) = False
   \<and> sandboxes (manager (snd (SnapshotPool_Acquire snap_env_ok world_golden DefaultVMConfig)))
        = [(''fc-7'', 0)]
   \<and> cidCounter (manager (snd (SnapshotPool_Acquire snap_env_ok world_golden DefaultVMConfig))) = 4
   \<and> poolMisses (stats (pool (snd (SnapshotPool_Acquire snap_env_ok world_golden DefaultVMConfig)))) = 1"
  by code_simp

text \<open>
  C2 at a concrete input. Same world, but the fresh create inside \<^verbatim>\<open>Pool.Acquire\<close>
  fails (the machine does not start). \<^verbatim>\<open>SnapshotPool.Acquire\<close> then restores \<open>fc-snap-8\<close>
  from the golden snapshot and returns it without an entry in the in-use map, unlike the
  hit path and \<^verbatim>\<open>createFresh\<close>.
\<close>

theorem SnapshotPool_Acquire_restored_not_in_use:
  "available (pool world_golden) = []
   \<and> fst (SnapshotPool_Acquire snap_env_create_fails world_golden DefaultVMConfig) = Inr 1
   \<and> ID (heap restored_world 1) = ''fc-snap-8''
   \<and> State (heap restored_world 1) = SandboxReady
   \<and> map_of (sandboxes (manager restored_world)) ''fc-snap-8'' = Some 1
   \<and> inUse (pool restored_world) = []
   \<and> map_of (inUse (pool restored_world)) (ID (heap restored_world 1)) = None
   \<and> available (pool restored_world) = []"
  unfolding restored_world_def by code_simp

subsection \<open>Agent client\<close>

text \<open>
  float64 rounding leaves an integer below \<open>2^53\<close> as it is, so a duration of a whole
  number of seconds is sent as that number; a duration a nanosecond short of a second
  can be sent as one second more.
\<close>

lemma round_half_even_of_int [simp]: "round_half_even (of_int m) = m"
  by (simp add: round_half_even_def)

lemma float64_exponent_of_int_le:
  assumes "\<bar>n\<bar> < 2 ^ 53"
  shows "float64_exponent (of_int n) \<le> 52"
proof -
  have "bitlen \<bar>n\<bar> \<le> 53"
    using assms by (simp add: bitlen_le_iff_power)
  moreover have "bitlen 1 = 1"
    by (simp add: bitlen_alt_def)
  ultimately show ?thesis
    by (simp add: float64_exponent_def Let_def)
qed

lemma float64_round_of_int:
  assumes "\<bar>n\<bar> < 2 ^ 53"
  shows "float64_round (of_int n) = of_int n"
proof (cases "n = 0")
  case True
  then show ?thesis by (simp add: float64_round_def)
next
  case False
  define e where "e = float64_exponent (of_int n)"
  define k where "k = nat (52 - e)"
  have e: "e \<le> 52" unfolding e_def by (rule float64_exponent_of_int_le [OF assms])
  have ulp: "pow2 (e - 52) = 1 / 2 ^ k"
    using e by (auto simp: pow2_def k_def)
  have "(of_int n :: rat) / (1 / 2 ^ k) = of_int (n * 2 ^ k)"
    by simp
  then have "round_half_even (of_int n / (1 / 2 ^ k)) = n * 2 ^ k"
    by (simp only: round_half_even_of_int)
  then show ?thesis
    using False by (simp add: float64_round_def Let_def e_def [symmetric] ulp)
qed

lemma Duration_Seconds_int_whole:
  assumes "\<bar>n\<bar> < 2 ^ 53"
  shows "Duration_Seconds_int (n * Second) = n"
proof -
  have sd: "(n * Second) sdiv Second = n"
    by (simp add: signed_divide_int_def Second_def sgn_mult abs_mult mult_sgn_abs)
  have sm: "(n * Second) smod Second = 0"
    by (simp add: signed_modulo_int_def Second_def abs_mult)
  have z: "float64_round 0 = 0"
    by (simp add: float64_round_def)
  have "Duration_Seconds (n * Second) = of_int n"
    by (simp add: Duration_Seconds_def Let_def sd sm z float64_round_of_int [OF assms])
  then show ?thesis
    by (simp add: Duration_Seconds_int_def go_int_of_float_def)
qed

lemma Duration_Seconds_int_rounds_up:
  "Duration_Seconds_int 16777216999999999 = 16777217
   \<and> 16777216999999999 sdiv Second = (16777216 :: int)"
  by code_simp

text \<open>
  C7, as the code has it. For every container id and timeout the request of
  \<^verbatim>\<open>StopContainer\<close> has method \<open>stop_container\<close> and a params object with exactly the
  keys \<open>id\<close> (the container id) and \<open>timeout\<close> (the value of \<^verbatim>\<open>int(timeout.Seconds())\<close>);
  there is no key \<open>timeout_seconds\<close>. For a timeout of a whole number \<open>n\<close> of seconds the
  value is \<open>n\<close>. On a connected client whose deadline has not passed and whose write
  succeeds, a call that returns has put that request, with the next request id, on the
  wire; and the guest agent reads the same two keys back (a timeout of 0 seconds becomes
  its default of 10).
\<close>

theorem StopContainer_request_keys:
  "Method (StopContainer_request cid t) = ''stop_container''
   \<and> map fst (Params (StopContainer_request cid t)) = [''id'', ''timeout'']
   \<and> map_of (Params (StopContainer_request cid t)) ''id'' = Some (JStr cid)
   \<and> map_of (Params (StopContainer_request cid t)) ''timeout''
        = Some (JNum (of_int (Duration_Seconds_int t)))
   \<and> map_of (Params (StopContainer_request cid t)) ''timeout_seconds'' = None
   \<and> (\<bar>n\<bar> < 2 ^ 53 \<longrightarrow>
        map_of (Params (StopContainer_request cid (n * Second))) ''timeout'' = Some (JNum (of_int n)))
   \<and> (conn c \<and> \<not> deadline_passed ctx (elapsed c)
        \<and> (\<forall>e. peer ((StopContainer_request cid t)\<lparr>req_ID := requestID c + 1\<rparr>) \<noteq> SendFails e)
        \<and> StopContainer ctx peer c cid t = Some (res, c')
        \<longrightarrow> wire c' = wire c @ [(StopContainer_request cid t)\<lparr>req_ID := requestID c + 1\<rparr>])
   \<and> agent_stop_params (Params (StopContainer_request cid t))
        = (cid, if Duration_Seconds_int t = 0 then 10 else of_int (Duration_Seconds_int t))"
proof -
  have w: "wire c' = wire c @ [(StopContainer_request cid t)\<lparr>req_ID := requestID c + 1\<rparr>]"
    if "conn c" "\<not> deadline_passed ctx (elapsed c)"
      "\<forall>e. peer ((StopContainer_request cid t)\<lparr>req_ID := requestID c + 1\<rparr>) \<noteq> SendFails e"
      "StopContainer ctx peer c cid t = Some (res, c')"
    using that
    by (auto simp: StopContainer_def call_def Let_def
        split: reply.splits option.splits if_splits sum.splits prod.splits)
  have n: "map_of (Params (StopContainer_request cid (n * Second))) ''timeout'' = Some (JNum (of_int n))"
    if "\<bar>n\<bar> < 2 ^ 53"
    using Duration_Seconds_int_whole [OF that] by (simp add: StopContainer_request_def)
  show ?thesis
    using w n by (simp add: StopContainer_request_def agent_stop_params_def)
qed

theorem StopContainer_request_keys_witness:
  "\<bar>30 :: int\<bar> < 2 ^ 53
   \<and> conn connected_client \<and> \<not> deadline_passed ctx_background (elapsed connected_client)
   \<and> (\<forall>e. peer_ok ((StopContainer_request ''task-1'' (30 * Second))\<lparr>req_ID := requestID connected_client + 1\<rparr>) \<noteq> SendFails e)
   \<and> fst (the (StopContainer ctx_background peer_ok connected_client ''task-1'' (30 * Second))) = None
   \<and> wire (snd (the (StopContainer ctx_background peer_ok connected_client ''task-1'' (30 * Second))))
       = [\<lparr>req_ID = 1, Method = ''stop_container'',
           Params = [(''id'', JStr ''task-1''), (''timeout'', JNum 30)]\<rparr>]"
proof -
  have h0: "\<bar>30 :: int\<bar> < 2 ^ 53" by simp
  have h1: "conn connected_client \<and> \<not> deadline_passed ctx_background (elapsed connected_client)"
    by (simp add: connected_client_def NewClient_def ctx_background_def deadline_passed_def)
  have h2: "\<forall>e. peer_ok ((StopContainer_request ''task-1'' (30 * Second))\<lparr>req_ID := requestID connected_client + 1\<rparr>) \<noteq> SendFails e"
    by (simp add: peer_ok_def)
  have h3: "StopContainer ctx_background peer_ok connected_client ''task-1'' (30 * Second)
      = Some (None, snd (the (StopContainer ctx_background peer_ok connected_client ''task-1'' (30 * Second))))"
    by (auto simp: StopContainer_def call_def Let_def connected_client_def NewClient_def
        ctx_background_def deadline_passed_def peer_ok_def)
  have h4: "Duration_Seconds_int (30 * Second) = 30"
    using Duration_Seconds_int_whole [of 30] by simp
  from StopContainer_request_keys [of "''task-1''" "30 * Second" 30 connected_client
      ctx_background peer_ok None
      "snd (the (StopContainer ctx_background peer_ok connected_client ''task-1'' (30 * Second)))"]
    h0 h1 h2 h3 h4
  have "wire (snd (the (StopContainer ctx_background peer_ok connected_client ''task-1'' (30 * Second))))
        = wire connected_client @ [(StopContainer_request ''task-1'' (30 * Second))\<lparr>req_ID := requestID connected_client + 1\<rparr>]"
    by simp
  then have h6: "wire (snd (the (StopContainer ctx_background peer_ok connected_client ''task-1'' (30 * Second))))
       = [\<lparr>req_ID = 1, Method = ''stop_container'',
           Params = [(''id'', JStr ''task-1''), (''timeout'', JNum 30)]\<rparr>]"
    using h4 by (simp add: connected_client_def NewClient_def StopContainer_request_def)
  have h5: "fst (the (StopContainer ctx_background peer_ok connected_client ''task-1'' (30 * Second))) = None"
    using h3 by (metis fst_conv option.sel)
  show ?thesis using h0 h1 h2 h5 h6 by blast
qed

text \<open>
  C7 as stated fails: stopping \<open>task-1\<close> with a timeout of 30 s puts on the wire a
  request whose params are \<open>id\<close> and \<open>timeout\<close>; it has no \<open>timeout_seconds\<close>.
\<close>

theorem StopContainer_timeout_seconds_counterexample:
  "StopContainer ctx_background peer_ok connected_client ''task-1'' (30 * Second)
     = Some (None, connected_client\<lparr>requestID := 1,
          wire := [\<lparr>req_ID = 1, Method = ''stop_container'',
                    Params = [(''id'', JStr ''task-1''), (''timeout'', JNum 30)]\<rparr>]\<rparr>)
   \<and> map_of [(''id'', JStr ''task-1''), (''timeout'', JNum 30)] ''timeout_seconds'' = None"
  by code_simp

text \<open>
  C10. The request goes out (the client is connected and the deadline of the context has
  not passed) and the agent answers \<open>start_container\<close> with the right id, no error and a
  result object without a numeric \<open>pid\<close>: \<^verbatim>\<open>StartContainer\<close> returns pid 0 and a nil
  error, and \<^verbatim>\<open>Service.Start\<close> records pid 0 for the process and returns it.
\<close>

theorem StartContainer_missing_pid:
  assumes "conn c"
    and "\<not> deadline_passed ctx (elapsed c)"
    and "peer ((StartContainer_request cid)\<lparr>req_ID := requestID c + 1\<rparr>) = Replies resp"
    and "resp_ID resp = requestID c + 1"
    and "Error resp = None"
    and "Result resp = JObj result"
    and "\<forall>f. map_of result ''pid'' \<noteq> Some (JNum f)"
  shows "map_option fst (StartContainer ctx peer c cid) = Some (0, None)
    \<and> (agentClient s = Some c
         \<and> map_of (processes s) (if st_ExecID r \<noteq> [] then st_ExecID r else st_ID r) = Some proc
         \<and> containerID proc = cid
        \<longrightarrow> map_option fst (Start ctx peer s r) = Some (Inr 0)
            \<and> map_option (\<lambda>res. map_of (processes (snd res))
                   (if st_ExecID r \<noteq> [] then st_ExecID r else st_ID r)) (Start ctx peer s r)
                 = Some (Some (proc\<lparr>ps_pid := 0\<rparr>)))"
proof -
  have "\<exists>c1. StartContainer ctx peer c cid = Some ((0, None), c1)"
    using assms
    by (auto simp: StartContainer_def call_def Let_def go_int_of_float_def
        split: option.splits json.splits)
  then obtain c1 where sc: "StartContainer ctx peer c cid = Some ((0, None), c1)"
    by blast
  show ?thesis
    using sc by (auto simp: Start_def Let_def update_conv')
qed

theorem StartContainer_missing_pid_witness:
  "conn connected_client
   \<and> \<not> deadline_passed ctx_background (elapsed connected_client)
   \<and> map_option fst (StartContainer ctx_background peer_no_pid connected_client ''task-1'')
       = Some (0, None)
   \<and> map_option fst (Start ctx_background peer_no_pid service_created
        \<lparr>st_ID = ''task-1'', st_ExecID = []\<rparr>) = Some (Inr 0)
   \<and> map_option (\<lambda>res. map (\<lambda>kv. ps_pid (snd kv)) (processes (snd res)))
        (Start ctx_background peer_no_pid service_created \<lparr>st_ID = ''task-1'', st_ExecID = []\<rparr>)
       = Some [0]"
proof -
  let ?resp = "\<lparr>resp_ID = 1, Result = JObj [(''status'', JStr ''started'')], Error = None\<rparr>"
  have h1: "conn connected_client"
    by (simp add: connected_client_def NewClient_def)
  have h1': "\<not> deadline_passed ctx_background (elapsed connected_client)"
    by (simp add: ctx_background_def deadline_passed_def)
  have h2: "peer_no_pid ((StartContainer_request ''task-1'')\<lparr>req_ID := requestID connected_client + 1\<rparr>) = Replies ?resp"
    by (simp add: peer_no_pid_def connected_client_def NewClient_def)
  have h3: "resp_ID ?resp = requestID connected_client + 1"
    by (simp add: connected_client_def NewClient_def)
  have h4: "Error ?resp = None" by simp
  have h5: "Result ?resp = JObj [(''status'', JStr ''started'')]" by simp
  have h6: "\<forall>f. map_of [(''status'', JStr ''started'')] ''pid'' \<noteq> Some (JNum f)" by simp
  have h7: "map_option (\<lambda>res. map (\<lambda>kv. ps_pid (snd kv)) (processes (snd res)))
        (Start ctx_background peer_no_pid service_created \<lparr>st_ID = ''task-1'', st_ExecID = []\<rparr>)
       = Some [0]"
    by code_simp
  from StartContainer_missing_pid [where c = connected_client and peer = peer_no_pid
        and ctx = ctx_background
        and cid = "''task-1''" and resp = "?resp" and result = "[(''status'', JStr ''started'')]"
        and s = service_created and r = "\<lparr>st_ID = ''task-1'', st_ExecID = []\<rparr>"
        and proc = "the (map_of (processes service_created) ''task-1'')",
      OF h1 h1' h2 h3 h4 h5 h6] h1 h1' h7
  show ?thesis
    by (simp add: service_created_def)
qed

subsection \<open>Agent never answers\<close>


lemma ctx_Err_not_kind: "ctx_Err ctx t = Some e \<Longrightarrow> \<not> IsKind k e"
  by (auto simp: ctx_Err_def split: if_splits)










text \<open>
  An agent that turns every ping down with \<open>Method not found\<close>: 30 pings on the wire,
  3 s slept, and again the sandbox stays as it was.
\<close>

lemma Create_ping_refused_example:
  "fst after_create_refused = Inl (connect_error (Errorf ''timeout waiting for agent''))
   \<and> map (\<lambda>c. (map Method (wire c), requestID c, slept c))
         (case agentClient (snd (snd after_create_refused)) of Some c \<Rightarrow> [c] | None \<Rightarrow> [])
        = [(replicate 30 ''ping'', 30, 30 * (100 * Millisecond))]
   \<and> State (heap (fst (snd after_create_refused)) 0) = SandboxReady
   \<and> map_of (sandboxes (manager (fst (snd after_create_refused)))) ''fc-7'' = Some 0
   \<and> map_of (inUse (pool (fst (snd after_create_refused)))) ''fc-7'' = Some 0"
  unfolding after_create_refused_def by code_simp

end
